theory Spec2Isabelle
  imports Main
begin

section \<open>Python values and exceptions\<close>

text \<open>
  The exceptions the modelled code raises or lets through. \<open>TransferError\<close> stands for
  whatever the office365 client raises out of \<open>execute_query()\<close> (a request exception,
  a timeout); the file-system errors are the subclasses of \<open>OSError\<close> that
  \<open>Path.mkdir\<close> and \<open>Path.open\<close> raise.
\<close>

datatype error =
    ValueError string
  | KeyError string
  | IndexError string
  | TypeError string
  | AttributeError string
  | MissingDependencyError string
  | FileExistsError
  | FileNotFoundError
  | NotADirectoryError
  | IsADirectoryError
  | TransferError string

text \<open>Truthiness of an optional string: \<open>None\<close> and \<open>""\<close> are falsy.\<close>

fun truthy :: "string option \<Rightarrow> bool" where
  "truthy None = False"
| "truthy (Some s) = (s \<noteq> [])"

text \<open>\<open>v or ""\<close> for an optional string.\<close>

definition or_empty :: "string option \<Rightarrow> string" where
  "or_empty v = (if truthy v then (case v of Some s \<Rightarrow> s | None \<Rightarrow> []) else [])"

text \<open>\<open>d.get(k, dflt)\<close> and \<open>obj.get_property(k, dflt)\<close> on a dictionary of properties.\<close>

definition get_property :: "('k \<times> 'v) list \<Rightarrow> 'k \<Rightarrow> 'v \<Rightarrow> 'v" where
  "get_property props k dflt = (case map_of props k of None \<Rightarrow> dflt | Some v \<Rightarrow> v)"

text \<open>\<open>s.split(sep)\<close> for a one-character separator: never the empty list.\<close>

fun split_on :: "char \<Rightarrow> string \<Rightarrow> string list" where
  "split_on sep [] = [[]]"
| "split_on sep (c # cs) =
     (if c = sep then [] # split_on sep cs
      else (case split_on sep cs of
              [] \<Rightarrow> [[c]]
            | piece # pieces \<Rightarrow> (c # piece) # pieces))"

text \<open>\<open>sep.join(xs)\<close>.\<close>

fun join_with :: "string \<Rightarrow> string list \<Rightarrow> string" where
  "join_with sep [] = []"
| "join_with sep [x] = x"
| "join_with sep (x # y # ys) = x @ sep @ join_with sep (y # ys)"

text \<open>\<open>s.rfind(c)\<close>: the last index of \<open>c\<close>; \<open>None\<close> stands for Python's \<open>-1\<close>.\<close>

definition rfind :: "char \<Rightarrow> string \<Rightarrow> nat option" where
  "rfind c s =
     (case filter (\<lambda>i. s ! i = c) (rev [0..<length s]) of
        [] \<Rightarrow> None
      | i # _ \<Rightarrow> Some i)"

text \<open>\<open>s[:-n]\<close> for \<open>n = len(...)\<close>: \<open>s[:-0]\<close> is \<open>s[:0]\<close>, the empty string.\<close>

definition slice_to_minus :: "string \<Rightarrow> nat \<Rightarrow> string" where
  "slice_to_minus s n = (if n = 0 then [] else take (length s - n) s)"

section \<open>pathlib: pure POSIX paths\<close>

text \<open>
  A pure path is its root (\<open>""\<close>, \<open>"/"\<close> or \<open>"//"\<close>) and its components; parsing drops
  empty components and \<open>"."\<close>, as \<open>PurePosixPath\<close> does.
\<close>

datatype PurePath = PurePath (root: string) (parts: "string list")

definition Path :: "string \<Rightarrow> PurePath" where
  "Path s =
     PurePath
       (if take 2 s = ''//'' \<and> take 3 s \<noteq> ''///'' then ''//''
        else if take 1 s = ''/'' then ''/'' else [])
       (filter (\<lambda>x. x \<noteq> [] \<and> x \<noteq> ''.'') (split_on CHR ''/'' s))"

definition str :: "PurePath \<Rightarrow> string" where
  "str p = (let s = root p @ join_with ''/'' (parts p) in if s = [] then ''.'' else s)"

definition path_name :: "PurePath \<Rightarrow> string" where
  "path_name p = (if parts p = [] then [] else last (parts p))"

text \<open>
  \<^verbatim>\<open>
  i = name.rfind('.')
  if 0 < i < len(name) - 1: return name[i:]
  else: return ''
  \<close>
\<close>

definition suffix :: "PurePath \<Rightarrow> string" where
  "suffix p =
     (let nm = path_name p in
      case rfind CHR ''.'' nm of
        None \<Rightarrow> []
      | Some i \<Rightarrow> if 0 < i \<and> i + 1 < length nm then drop i nm else [])"

text \<open>
  \<^verbatim>\<open>
  if name.endswith('.'): return []
  name = name.lstrip('.')
  return ['.' + suffix for suffix in name.split('.')[1:]]
  \<close>
\<close>

definition suffixes :: "PurePath \<Rightarrow> string list" where
  "suffixes p =
     (let nm = path_name p in
      if nm \<noteq> [] \<and> last nm = CHR ''.'' then []
      else map (\<lambda>s. CHR ''.'' # s)
             (tl (split_on CHR ''.'' (dropWhile (\<lambda>c. c = CHR ''.'') nm))))"

text \<open>
  \<open>PurePath.with_suffix\<close>; the messages of its \<open>ValueError\<close>s are shortened (Python puts
  the \<open>repr\<close> of the suffix or of the path into them).
\<close>

definition with_suffix :: "PurePath \<Rightarrow> string \<Rightarrow> error + PurePath" where
  "with_suffix p sfx =
     (if CHR ''/'' \<in> set sfx then Inl (ValueError ''Invalid suffix'')
      else if (sfx \<noteq> [] \<and> take 1 sfx \<noteq> ''.'') \<or> sfx = ''.''
      then Inl (ValueError ''Invalid suffix'')
      else let nm = path_name p in
        if nm = [] then Inl (ValueError ''path has an empty name'')
        else let old_suffix = suffix p;
                 nm' = (if old_suffix = [] then nm @ sfx
                        else take (length nm - length old_suffix) nm @ sfx)
             in Inr (PurePath (root p) (butlast (parts p) @ [nm'])))"

definition parent :: "PurePath \<Rightarrow> PurePath" where
  "parent p = PurePath (root p) (butlast (parts p))"

text \<open>\<open>p / q\<close>: an anchored right operand replaces the left one.\<close>

definition joinpath :: "PurePath \<Rightarrow> PurePath \<Rightarrow> PurePath" where
  "joinpath p q = (if root q \<noteq> [] then q else PurePath (root p) (parts p @ parts q))"

text \<open>
  \<open>Path.resolve()\<close> in a file system without symbolic links: the path is made absolute
  against the working directory and each \<open>".."\<close> removes the component before it. The
  result is the list of components below \<open>/\<close>.
\<close>

definition normalize :: "string list \<Rightarrow> string list" where
  "normalize ps = fold (\<lambda>x acc. if x = ''..'' then butlast acc else acc @ [x]) ps []"

definition resolve :: "string list \<Rightarrow> PurePath \<Rightarrow> string list" where
  "resolve cwd p = normalize ((if root p = [] then cwd else []) @ parts p)"

section \<open>The world: file system, log, requests sent to the source\<close>

datatype node = Regular string | Directory

datatype level = DEBUG | INFO | ERROR

text \<open>A log message is kept as the pieces of its f-string.\<close>

datatype frag = Txt string | Pth "string list" | Num int | Exc error

text \<open>One entry for every \<open>execute_query()\<close> the code sends to SharePoint.\<close>

datatype request =
    FolderExists string
  | FolderExpand string
  | SitePages
  | ListItemAllFields string
  | Download string
  | DownloadSession string int

record world =
  cwd :: "string list"
  fs :: "string list \<rightharpoonup> node"
  logs :: "(level \<times> frag list) list"
  requests :: "request list"
  installed :: "string list"

text \<open>
  A call either returns a value or raises, and leaves a world behind in both cases.
\<close>

type_synonym 'a io = "world \<Rightarrow> (error + 'a) \<times> world"

definition ret :: "'a \<Rightarrow> 'a io" where
  "ret x w = (Inr x, w)"

definition raise :: "error \<Rightarrow> 'a io" where
  "raise e w = (Inl e, w)"

definition io_bind :: "'a io \<Rightarrow> ('a \<Rightarrow> 'b io) \<Rightarrow> 'b io" where
  "io_bind m f w = (case m w of (Inl e, w') \<Rightarrow> (Inl e, w') | (Inr x, w') \<Rightarrow> f x w')"

text \<open>\<open>try: body except Exception as e: handler\<close>.\<close>

definition try_except :: "'a io \<Rightarrow> (error \<Rightarrow> 'a io) \<Rightarrow> 'a io" where
  "try_except body handler w =
     (case body w of (Inl e, w') \<Rightarrow> handler e w' | (Inr x, w') \<Rightarrow> (Inr x, w'))"

text \<open>A list comprehension \<open>[f(x) for x in xs]\<close>: the first exception ends it.\<close>

fun io_map :: "('a \<Rightarrow> 'b io) \<Rightarrow> 'a list \<Rightarrow> 'b list io" where
  "io_map f [] = ret []"
| "io_map f (x # xs) = io_bind (f x) (\<lambda>y. io_bind (io_map f xs) (\<lambda>ys. ret (y # ys)))"

definition logger :: "level \<Rightarrow> frag list \<Rightarrow> unit io" where
  "logger lvl msg w = (Inr (), w\<lparr>logs := logs w @ [(lvl, msg)]\<rparr>)"

text \<open>The request is recorded; the source's answer is a value or an exception.\<close>

definition execute_query :: "request \<Rightarrow> error + 'a \<Rightarrow> 'a io" where
  "execute_query req answer w = (answer, w\<lparr>requests := requests w @ [req]\<rparr>)"

text \<open>The root directory \<open>[]\<close> always exists.\<close>

definition path_exists :: "world \<Rightarrow> string list \<Rightarrow> bool" where
  "path_exists w p = (p = [] \<or> fs w p \<noteq> None)"

definition is_dir :: "world \<Rightarrow> string list \<Rightarrow> bool" where
  "is_dir w p = (p = [] \<or> fs w p = Some Directory)"

text \<open>\<open>Path.stat().st_size\<close> of a regular file, \<open>None\<close> where \<open>is_file()\<close> is false.\<close>

definition st_size :: "world \<Rightarrow> string list \<Rightarrow> nat option" where
  "st_size w p =
     (if p = [] then None
      else case fs w p of Some (Regular content) \<Rightarrow> Some (length content) | _ \<Rightarrow> None)"

definition os_mkdir :: "string list \<Rightarrow> unit io" where
  "os_mkdir p w =
     (if path_exists w p then (Inl FileExistsError, w)
      else if \<not> path_exists w (butlast p) then (Inl FileNotFoundError, w)
      else if \<not> is_dir w (butlast p) then (Inl NotADirectoryError, w)
      else (Inr (), w\<lparr>fs := (fs w)(p \<mapsto> Directory)\<rparr>))"

text \<open>
  \<open>Path.mkdir(parents=..., exist_ok=True)\<close>:
  \<^verbatim>\<open>
  try:
      os.mkdir(self, mode)
  except FileNotFoundError:
      if not parents or self.parent == self:
          raise
      self.parent.mkdir(parents=True, exist_ok=True)
      self.mkdir(mode, parents=False, exist_ok=exist_ok)
  except OSError:
      if not exist_ok or not self.is_dir():
          raise
  \<close>
\<close>

definition mkdir_exist_ok :: "string list \<Rightarrow> unit io" where
  "mkdir_exist_ok p =
     try_except (os_mkdir p)
       (\<lambda>e w. if e = FileNotFoundError then (Inl e, w)
               else if \<not> is_dir w p then (Inl e, w)
               else (Inr (), w))"

function mkdir_parents_exist_ok :: "string list \<Rightarrow> unit io" where
  "mkdir_parents_exist_ok p =
     try_except (os_mkdir p)
       (\<lambda>e w. if e = FileNotFoundError then
                 (if butlast p = p then (Inl e, w)
                  else io_bind (mkdir_parents_exist_ok (butlast p)) (\<lambda>_. mkdir_exist_ok p) w)
               else if \<not> is_dir w p then (Inl e, w)
               else (Inr (), w))"
  by pat_completeness auto
termination
  apply (relation "measure length")
   apply simp
  apply (case_tac p rule: rev_cases)
   apply simp_all
  done

declare mkdir_parents_exist_ok.simps [simp del]

text \<open>\<open>Path.open(mode="w")\<close> and \<open>"wb"\<close>: the file is created or truncated.\<close>

definition open_write :: "string list \<Rightarrow> unit io" where
  "open_write p w =
     (if is_dir w p then (Inl IsADirectoryError, w)
      else if \<not> path_exists w (butlast p) then (Inl FileNotFoundError, w)
      else if \<not> is_dir w (butlast p) then (Inl NotADirectoryError, w)
      else (Inr (), w\<lparr>fs := (fs w)(p \<mapsto> Regular [])\<rparr>))"

definition write_bytes :: "string list \<Rightarrow> string \<Rightarrow> unit io" where
  "write_bytes p content w = (Inr (), w\<lparr>fs := (fs w)(p \<mapsto> Regular content)\<rparr>)"

section \<open>sharepoint.py: SimpleSharepointConfig\<close>

text \<open>
  \<^verbatim>\<open>
  @dataclass
  class SimpleSharepointConfig(BaseConnectorConfig):
      client_id: str
      client_credential: str = field(repr=False)
      site_url: str
      path: str
      process_all: bool = False
      process_pages: bool = False
      recursive: bool = False
  \<close>
  The three mandatory values are optional strings here: a caller can pass \<open>None\<close>
  (a command-line option that was not given) as well as \<open>""\<close>.
\<close>

record SimpleSharepointConfig =
  client_id :: "string option"
  client_credential :: "string option"
  site_url :: "string option"
  path :: string
  process_all :: bool
  process_pages :: bool
  recursive :: bool

definition mandatory_values_message :: string where
  "mandatory_values_message =
     ''Please provide one of the following mandatory values:'' @
     [CHR 0x0A] @ ''-ms-client_id'' @ [CHR 0x0A] @ ''-ms-client_cred'' @
     [CHR 0x0A] @ ''-ms-sharepoint-site''"

text \<open>\<open>SimpleSharepointConfig.__post_init__\<close> (lines 35-40).\<close>

definition config_post_init :: "SimpleSharepointConfig \<Rightarrow> error + unit" where
  "config_post_init self =
     (if \<not> (truthy (client_id self) \<and> truthy (client_credential self) \<and> truthy (site_url self))
      then Inl (ValueError mandatory_values_message)
      else Inr ())"

text \<open>
  The constructor the dataclass decorator generates: it stores the fields, then runs
  \<open>__post_init__\<close>; when that raises, the caller gets the exception and no object.
\<close>

definition new_config ::
  "string option \<Rightarrow> string option \<Rightarrow> string option \<Rightarrow> string \<Rightarrow> bool \<Rightarrow> bool \<Rightarrow> bool
     \<Rightarrow> error + SimpleSharepointConfig" where
  "new_config cid cred u p pall ppages rec =
     (let self = \<lparr>client_id = cid, client_credential = cred, site_url = u, path = p,
                  process_all = pall, process_pages = ppages, recursive = rec\<rparr>
      in case config_post_init self of
           Inl e \<Rightarrow> Inl e
         | Inr _ \<Rightarrow> Inr self)"

text \<open>
  The decorator is plain \<open>@dataclass\<close>, not \<open>@dataclass(frozen=True)\<close>: an assignment
  \<open>cfg.client_id = v\<close> after construction stores the value and does not run
  \<open>__post_init__\<close> again.
\<close>

definition assign_client_id ::
  "SimpleSharepointConfig \<Rightarrow> string option \<Rightarrow> error + SimpleSharepointConfig" where
  "assign_client_id cfg v = Inr (cfg\<lparr>client_id := v\<rparr>)"

section \<open>sharepoint.py: SharepointIngestDoc\<close>

text \<open>
  What the code reads of an office365 \<open>File\<close>: its name, its server-relative URL and its
  loaded properties, and what the source answers when the file is fetched. A transfer
  either delivers the content or is interrupted after some bytes have been written.
\<close>

datatype transfer = Delivered string | Interrupted string error

record File =
  name :: string
  serverRelativeUrl :: string
  properties :: "(string \<times> int) list"
  transfer :: transfer
  listItemAllFields :: "error + (string \<times> string option) list"

text \<open>
  \<open>StandardConnectorConfig\<close> is declared in \<open>unstructured.ingest.interfaces\<close>; the code
  reads its \<open>download_dir\<close> and \<open>output_dir\<close>.
\<close>

record StandardConnectorConfig =
  std_download_dir :: string
  std_output_dir :: string

text \<open>The dictionary \<open>{"url": ..., "site_path": ...}\<close> that marks a page record.\<close>

record page_meta =
  url :: string
  site_path :: "string option"

text \<open>
  The fields of the dataclass (\<open>standard_config\<close> from \<open>BaseIngestDoc\<close>, then \<open>config\<close>,
  \<open>file\<close>, \<open>meta\<close>) and the attributes that \<open>__post_init__\<close> and
  \<open>_set_download_paths\<close> assign. The class has no attribute for a processing state.
  The field \<open>file\<close> is written \<open>doc_file\<close> (\<open>file\<close> is a keyword here), the two
  directories of the standard configuration carry the prefix \<open>std_\<close>, and a method whose
  name starts with an underscore is written with the prefix \<open>priv_\<close>. The four paths are
  resolved, so they are kept as the components below \<open>/\<close>.
\<close>

record SharepointIngestDoc =
  standard_config :: StandardConnectorConfig
  config :: SimpleSharepointConfig
  doc_file :: File
  meta :: "page_meta option"
  ext :: string
  download_dir :: "string list"
  download_filepath :: "string list"
  output_dir :: "string list"
  output_filepath :: "string list"

text \<open>
  What the module imports from outside the repository's sources at hand: the keys of
  the table \<open>EXT_TO_FILETYPE\<close> in dictionary order (\<open>None\<close> is one of them),
  \<open>html.unescape\<close>, and the \<open>path\<close> component of \<open>urllib.parse.urlparse\<close>.
\<close>

record externals =
  EXT_TO_FILETYPE :: "string option list"
  unescape :: "string \<Rightarrow> string"
  urlparse_path :: "string \<Rightarrow> string"

definition MAX_MB_SIZE :: int where
  "MAX_MB_SIZE = 512000000"

definition extension_not_supported :: "string option list \<Rightarrow> string" where
  "extension_not_supported keys =
     ''Extension not supported. Value MUST be one of '' @
     join_with '', '' (concat (map (\<lambda>k. case k of None \<Rightarrow> [] | Some s \<Rightarrow> [s]) keys)) @ ''.''"

text \<open>\<open>SharepointIngestDoc._set_download_paths\<close> (lines 61-77).\<close>

definition priv_set_download_paths :: "SharepointIngestDoc \<Rightarrow> SharepointIngestDoc io" where
  "priv_set_download_paths self w =
     (let download_path = Path (std_download_dir (standard_config self));
          output_path = Path (std_output_dir (standard_config self));
          parent_or_error =
            (case meta self of
               Some m \<Rightarrow>
                 (case site_path m of
                    None \<Rightarrow> with_suffix (Path (url m)) (ext self)
                  | Some sp \<Rightarrow> with_suffix (Path (sp @ ''/'' @ url m)) (ext self))
             | None \<Rightarrow> Inr (Path (drop 1 (serverRelativeUrl (doc_file self)))))
      in case parent_or_error of
           Inl e \<Rightarrow> (Inl e, w)
         | Inr prnt \<Rightarrow>
             (let oname = slice_to_minus (str prnt) (length (ext self)) @ ''.json''
              in (Inr (self\<lparr>download_dir := resolve (cwd w) (joinpath download_path (parent prnt)),
                             download_filepath := resolve (cwd w) (joinpath download_path prnt),
                             output_dir := resolve (cwd w) (joinpath output_path (parent prnt)),
                             output_filepath := resolve (cwd w) (joinpath output_path (Path oname))\<rparr>),
                  w)))"

text \<open>\<open>SharepointIngestDoc.__post_init__\<close> (lines 49-59).\<close>

definition doc_post_init :: "externals \<Rightarrow> SharepointIngestDoc \<Rightarrow> SharepointIngestDoc io" where
  "doc_post_init lib self =
     (let self = self\<lparr>ext := (if meta self = None
                                then concat (suffixes (Path (name (doc_file self))))
                                else ''.html'')\<rparr>
      in if ext self = [] then raise (ValueError ''Unsupported file without extension.'')
         else if Some (ext self) \<notin> set (EXT_TO_FILETYPE lib)
         then raise (ValueError (extension_not_supported (EXT_TO_FILETYPE lib)))
         else priv_set_download_paths self)"

text \<open>
  \<open>SharepointIngestDoc(standard_config, config, file, meta)\<close>: the generated constructor
  stores the four fields and runs \<open>__post_init__\<close>.
\<close>

definition new_SharepointIngestDoc ::
  "externals \<Rightarrow> StandardConnectorConfig \<Rightarrow> SimpleSharepointConfig \<Rightarrow> File \<Rightarrow> page_meta option
     \<Rightarrow> SharepointIngestDoc io" where
  "new_SharepointIngestDoc lib sc cfg f m =
     doc_post_init lib
       \<lparr>standard_config = sc, config = cfg, doc_file = f, meta = m, ext = [],
        download_dir = [], download_filepath = [], output_dir = [], output_filepath = []\<rparr>"

text \<open>The property \<open>filename\<close>: \<open>Path(self.download_filepath).resolve()\<close>.\<close>

definition filename :: "SharepointIngestDoc \<Rightarrow> world \<Rightarrow> string list" where
  "filename self w = resolve (cwd w) (PurePath ''/'' (download_filepath self))"

subsection \<open>Fetching\<close>

text \<open>
  What the client does with the open file once the request is sent: the bytes that
  arrive are written; an interrupted transfer then raises.
\<close>

definition receive :: "string list \<Rightarrow> transfer \<Rightarrow> unit io" where
  "receive p t =
     (case t of
        Delivered content \<Rightarrow> write_bytes p content
      | Interrupted content e \<Rightarrow> io_bind (write_bytes p content) (\<lambda>_. raise e))"

text \<open>\<open>file.download(f).execute_query()\<close>.\<close>

definition download :: "File \<Rightarrow> string list \<Rightarrow> unit io" where
  "download f p =
     io_bind (execute_query (Download (serverRelativeUrl f)) (Inr ())) (\<lambda>_. receive p (transfer f))"

text \<open>\<open>file.download_session(f, chunk_size=...).execute_query()\<close>.\<close>

definition download_session :: "File \<Rightarrow> string list \<Rightarrow> int \<Rightarrow> unit io" where
  "download_session f p chunk_size =
     io_bind (execute_query (DownloadSession (serverRelativeUrl f) chunk_size) (Inr ()))
       (\<lambda>_. receive p (transfer f))"

text \<open>
  The directory preparation that \<open>_get_file\<close> (lines 120-124) and \<open>_get_page\<close>
  (lines 105-108) both contain:
  \<^verbatim>\<open>
  self.output_dir.mkdir(parents=True, exist_ok=True)
  if not self.download_dir.is_dir():
      logger.debug(f"Creating directory: {self.download_dir}")
      self.download_dir.mkdir(parents=True, exist_ok=True)
  \<close>
\<close>

definition prepare_dirs :: "SharepointIngestDoc \<Rightarrow> unit io" where
  "prepare_dirs self =
     io_bind (mkdir_parents_exist_ok (output_dir self)) (\<lambda>_ w.
       if \<not> is_dir w (download_dir self)
       then io_bind (logger DEBUG [Txt ''Creating directory: '', Pth (download_dir self)])
              (\<lambda>_. mkdir_parents_exist_ok (download_dir self)) w
       else (Inr (), w))"

text \<open>The body of the \<open>try\<close> in \<open>_get_file\<close> (lines 119-132).\<close>

definition get_file_try :: "SharepointIngestDoc \<Rightarrow> unit io" where
  "get_file_try self =
     (let fsize = get_property (properties (doc_file self)) ''size'' 0 in
      io_bind (prepare_dirs self) (\<lambda>_.
        if fsize > MAX_MB_SIZE then
          io_bind (logger INFO [Txt ''Downloading file with size: '', Num fsize,
                                Txt '' bytes in chunks'']) (\<lambda>_ w.
          io_bind (open_write (filename self w)) (\<lambda>_.
            download_session (doc_file self) (filename self w) (1024 * 1024 * 100)) w)
        else (\<lambda>w.
          io_bind (open_write (filename self w)) (\<lambda>_.
            download (doc_file self) (filename self w)) w)))"

text \<open>The \<open>except Exception as e\<close> clause of \<open>_get_file\<close> and of \<open>_get_page\<close>.\<close>

definition download_failed :: "SharepointIngestDoc \<Rightarrow> error \<Rightarrow> unit io" where
  "download_failed self e w =
     io_bind (logger ERROR [Txt ''Error while downloading and saving file: '',
                            Pth (filename self w), Txt ''.''])
       (\<lambda>_. logger ERROR [Exc e]) w"

text \<open>
  \<open>SharepointIngestDoc._get_file\<close> (lines 117-137). The handler returns from the
  method; only a completed \<open>try\<close> reaches the last log line. The methods that fetch
  return \<open>None\<close>; the model returns \<open>self\<close>, the record as the call leaves it.
\<close>

definition priv_get_file :: "SharepointIngestDoc \<Rightarrow> SharepointIngestDoc io" where
  "priv_get_file self =
     io_bind (try_except (io_bind (get_file_try self) (\<lambda>_. ret True))
                (\<lambda>e. io_bind (download_failed self e) (\<lambda>_. ret False)))
       (\<lambda>completed w.
          if completed
          then io_bind (logger INFO [Txt ''File downloaded: '', Pth (filename self w)])
                 (\<lambda>_. ret self) w
          else (Inr self, w))"

text \<open>\<open>self.meta['url']\<close>: subscripting \<open>None\<close> raises \<open>TypeError\<close>.\<close>

definition meta_url :: "SharepointIngestDoc \<Rightarrow> string io" where
  "meta_url self =
     (case meta self of
        None \<Rightarrow> raise (TypeError ''NoneType object is not subscriptable'')
      | Some m \<Rightarrow> ret (url m))"

text \<open>The body of the \<open>try\<close> in \<open>_get_page\<close> (lines 92-110).\<close>

definition get_page_try :: "externals \<Rightarrow> SharepointIngestDoc \<Rightarrow> unit io" where
  "get_page_try lib self =
     io_bind (execute_query (ListItemAllFields (serverRelativeUrl (doc_file self)))
                (listItemAllFields (doc_file self))) (\<lambda>content.
     let pld = or_empty (get_property content ''LayoutWebpartsContent1'' (Some []))
               @ or_empty (get_property content ''CanvasContent1'' (Some [])) in
     io_bind (if pld \<noteq> [] then ret (unescape lib pld)
              else io_bind (meta_url self) (\<lambda>u.
                   io_bind (logger INFO [Txt ''Page '', Txt u,
                              Txt '' as it has no retrievable content. Dumping empty doc.''])
                     (\<lambda>_. ret ''<div></div>''))) (\<lambda>pld.
     io_bind (prepare_dirs self) (\<lambda>_ w.
     io_bind (open_write (filename self w)) (\<lambda>_. write_bytes (filename self w) pld) w)))"

text \<open>\<open>SharepointIngestDoc._get_page\<close> (lines 87-115).\<close>

definition priv_get_page :: "externals \<Rightarrow> SharepointIngestDoc \<Rightarrow> SharepointIngestDoc io" where
  "priv_get_page lib self =
     io_bind (try_except (io_bind (get_page_try lib self) (\<lambda>_. ret True))
                (\<lambda>e. io_bind (download_failed self e) (\<lambda>_. ret False)))
       (\<lambda>completed w.
          if completed
          then io_bind (logger INFO [Txt ''File downloaded: '', Pth (filename self w)])
                 (\<lambda>_. ret self) w
          else (Inr self, w))"

text \<open>
  Modelled from the spec: the decorator \<open>BaseIngestDoc.skip_if_file_exists\<close>, declared in
  \<open>unstructured.ingest.interfaces\<close>. The spec's skip-if-cached policy: before fetching,
  check whether the download path exists and is non-empty; if so, return without
  contacting the source; the skip is logged.
\<close>

definition skip_if_file_exists ::
  "SharepointIngestDoc \<Rightarrow> SharepointIngestDoc io \<Rightarrow> SharepointIngestDoc io" where
  "skip_if_file_exists self func w =
     (case st_size w (filename self w) of
        Some n \<Rightarrow>
          if 0 < n
          then io_bind (logger DEBUG [Txt ''File exists: '', Pth (filename self w),
                                      Txt '', skipping'']) (\<lambda>_. ret self) w
          else func w
      | None \<Rightarrow> func w)"

text \<open>
  Modelled from the spec: the decorator \<open>requires_dependencies\<close>, declared in
  \<open>unstructured.utils\<close>. The spec's capability check: a dependency that is absent fails
  the call with \<open>MissingDependencyError\<close> before the body runs.
\<close>

definition requires_dependencies :: "string list \<Rightarrow> 'a io \<Rightarrow> 'a io" where
  "requires_dependencies dependencies func w =
     (case filter (\<lambda>d. d \<notin> set (installed w)) dependencies of
        [] \<Rightarrow> func w
      | missing \<Rightarrow> (Inl (MissingDependencyError (join_with '', '' missing)), w))"

text \<open>\<open>SharepointIngestDoc.get_file\<close> (lines 139-146), under its two decorators.\<close>

definition get_file :: "externals \<Rightarrow> SharepointIngestDoc \<Rightarrow> SharepointIngestDoc io" where
  "get_file lib self =
     skip_if_file_exists self
       (requires_dependencies [''office365'']
          (if meta self = None then priv_get_file self else priv_get_page lib self))"

section \<open>sharepoint.py: SharepointConnector\<close>

text \<open>
  A folder handle of the office365 client: what the source answers to
  \<open>select("Exists")\<close> and to \<open>expand(["Files", "Folders"])\<close>.
\<close>

datatype Folder =
  Folder (folder_url: string) (exists_answer: "error + bool")
         (expand_answer: "error + File list \<times> Folder list")

text \<open>A site page of the listing, as its properties.\<close>

type_synonym SitePage = "(string \<times> string) list"

record ClientContext =
  base_url :: string
  get_folder_by_server_relative_path :: "string \<Rightarrow> Folder"
  get_file_by_server_relative_path :: "string \<Rightarrow> File"
  site_pages :: "error + SitePage list"

record SharepointConnector =
  connector_standard_config :: StandardConnectorConfig
  connector_config :: SimpleSharepointConfig

text \<open>
  \<open>self._list_objects\<close> (line 187). \<open>SharepointConnector\<close> defines \<open>__init__\<close>,
  \<open>_setup_client\<close>, \<open>_list_files\<close>, \<open>_list_pages\<close>, \<open>initialize\<close>,
  \<open>_ingest_site_docs\<close>, \<open>_filter_site_url\<close> and \<open>get_ingest_docs\<close>; the name
  \<open>_list_objects\<close> occurs at its call only. Looking the attribute up on \<open>self\<close> raises
  \<open>AttributeError\<close>, whatever the folder and the flag are.
\<close>

definition no_attribute_list_objects :: string where
  "no_attribute_list_objects =
     [CHR 0x27] @ ''SharepointConnector'' @ [CHR 0x27] @ '' object has no attribute '' @
     [CHR 0x27] @ ''_list_objects'' @ [CHR 0x27]"

definition priv_list_objects :: "Folder \<Rightarrow> bool \<Rightarrow> File list io" where
  "priv_list_objects f rec = raise (AttributeError no_attribute_list_objects)"

text \<open>
  \<open>SharepointConnector._list_files\<close> (lines 181-188), and its loop over the subfolders:
  \<^verbatim>\<open>
  for f in folder.folders:
      files += self._list_objects(f, recursive)
  \<close>
\<close>

fun list_files_loop :: "bool \<Rightarrow> File list \<Rightarrow> Folder list \<Rightarrow> File list io" where
  "list_files_loop rec files [] = ret files"
| "list_files_loop rec files (f # rest) =
     io_bind (priv_list_objects f rec) (\<lambda>more. list_files_loop rec (files @ more) rest)"

definition priv_list_files :: "Folder \<Rightarrow> bool \<Rightarrow> File list io" where
  "priv_list_files root_folder rec =
     io_bind (execute_query (FolderExpand (folder_url root_folder)) (expand_answer root_folder))
       (\<lambda>folder.
          let files = fst folder in
          if \<not> rec then ret files
          else list_files_loop rec files (snd folder))"

text \<open>
  \<open>SharepointConnector._list_pages\<close> (lines 190-208); the loop takes the list built so
  far. \<open>page_url[0]\<close> raises on the empty string.
\<close>

fun list_pages_loop ::
  "externals \<Rightarrow> ClientContext \<Rightarrow> (File \<times> page_meta) list \<Rightarrow> SitePage list
     \<Rightarrow> (File \<times> page_meta) list io" where
  "list_pages_loop lib site_client pfiles [] = ret pfiles"
| "list_pages_loop lib site_client pfiles (page # rest) =
     (case map_of page ''Url'' of
        None \<Rightarrow> io_bind (logger INFO [Txt ''Missing site_url. Omitting page... ''])
                  (\<lambda>_. ret pfiles)
      | Some page_url \<Rightarrow>
          (case page_url of
             [] \<Rightarrow> raise (IndexError ''string index out of range'')
           | c # _ \<Rightarrow>
               (let page_url' = (if c \<noteq> CHR ''/'' then ''/'' @ page_url else page_url);
                    file_page = get_file_by_server_relative_path site_client page_url';
                    spath = urlparse_path lib (base_url site_client);
                    sp = (if spath \<noteq> [] \<and> spath \<noteq> ''/'' then Some (drop 1 spath) else None)
                in list_pages_loop lib site_client
                     (pfiles @ [(file_page, \<lparr>url = page_url, site_path = sp\<rparr>)]) rest)))"

definition priv_list_pages ::
  "externals \<Rightarrow> ClientContext \<Rightarrow> (File \<times> page_meta) list io" where
  "priv_list_pages lib site_client =
     io_bind (execute_query SitePages (site_pages site_client))
       (\<lambda>pages. list_pages_loop lib site_client [] pages)"

text \<open>\<open>SharepointConnector._ingest_site_docs\<close> (lines 213-230).\<close>

definition priv_ingest_site_docs ::
  "externals \<Rightarrow> SharepointConnector \<Rightarrow> ClientContext \<Rightarrow> SharepointIngestDoc list io" where
  "priv_ingest_site_docs lib self site_client =
     (let cfg = connector_config self;
          std = connector_standard_config self;
          root_folder = get_folder_by_server_relative_path site_client (path cfg) in
      io_bind (execute_query (FolderExists (folder_url root_folder)) (exists_answer root_folder))
        (\<lambda>folder_exists.
          if folder_exists then
            io_bind (logger INFO [Txt ''Folder '', Txt (path cfg),
                       Txt '' does not exist. Skipping site '', Txt (base_url site_client)])
              (\<lambda>_. ret [])
          else
            io_bind (priv_list_files root_folder (recursive cfg)) (\<lambda>files.
            io_bind (io_map (\<lambda>f. new_SharepointIngestDoc lib std cfg f None) files) (\<lambda>output.
            if process_pages cfg then
              io_bind (priv_list_pages lib site_client) (\<lambda>page_files.
              io_bind (io_map (\<lambda>f. new_SharepointIngestDoc lib std cfg (fst f) (Some (snd f)))
                         page_files) (\<lambda>page_output.
              ret (output @ page_output)))
            else ret output))))"

section \<open>cli/cmds/dropbox.py\<close>

datatype pyval = PyNone | PyBool bool | PyStr string

fun py_truth :: "pyval \<Rightarrow> bool" where
  "py_truth PyNone = False"
| "py_truth (PyBool b) = b"
| "py_truth (PyStr s) = (s \<noteq> [])"

type_synonym options = "(string \<times> pyval) list"

text \<open>\<open>options[key]\<close>.\<close>

definition getitem :: "options \<Rightarrow> string \<Rightarrow> error + pyval" where
  "getitem opts k = (case map_of opts k of None \<Rightarrow> Inl (KeyError k) | Some v \<Rightarrow> Inr v)"

text \<open>
  The three \<open>@click.option\<close> decorators of the command (lines 16-34) and the keyword
  arguments click hands to the handler for them: one key per declared option, named
  after the option with \<open>-\<close> turned into \<open>_\<close>.
\<close>

definition declared_options :: "string list" where
  "declared_options = [''recursive'', ''remote_url'', ''token'']"

definition invocation :: "bool \<Rightarrow> string \<Rightarrow> string \<Rightarrow> options" where
  "invocation rec remote_url token =
     [(''recursive'', PyBool rec), (''remote_url'', PyStr remote_url), (''token'', PyStr token)]"

text \<open>
  The functions the handler imports from \<open>unstructured.ingest.cli.common\<close>,
  \<open>unstructured.ingest.logger\<close> and \<open>unstructured.ingest.connector.dropbox\<close>. A function
  that is handed the dictionary returns it as the call leaves it.
\<close>

record ('sc, 'cfg, 'conn) cli_imports =
  run_init_checks :: "options \<Rightarrow> error + options"
  ingest_log_streaming_init :: "level \<Rightarrow> error + unit"
  log_options :: "options \<Rightarrow> error + options"
  update_download_dir_remote_url :: "options \<Rightarrow> pyval \<Rightarrow> error + options"
  import_dropbox_connector :: "error + unit"
  map_to_standard_config :: "options \<Rightarrow> error + 'sc \<times> options"
  SimpleDropboxConfig :: "pyval \<Rightarrow> pyval \<Rightarrow> pyval \<Rightarrow> error + 'cfg"
  DropboxConnector :: "'sc \<Rightarrow> 'cfg \<Rightarrow> error + 'conn"
  process_documents :: "'conn \<Rightarrow> options \<Rightarrow> error + unit"

definition and_then :: "error + 'a \<Rightarrow> ('a \<Rightarrow> error + 'b) \<Rightarrow> error + 'b" where
  "and_then r f = (case r of Inl e \<Rightarrow> Inl e | Inr x \<Rightarrow> f x)"

text \<open>The handler \<open>dropbox(**options)\<close> (lines 35-56).\<close>

definition dropbox :: "('sc, 'cfg, 'conn) cli_imports \<Rightarrow> options \<Rightarrow> error + unit" where
  "dropbox cli opts =
     and_then (run_init_checks cli opts) (\<lambda>opts.
     and_then (getitem opts ''verbose'') (\<lambda>verbose.
     and_then (ingest_log_streaming_init cli (if py_truth verbose then DEBUG else INFO)) (\<lambda>_.
     and_then (log_options cli opts) (\<lambda>opts.
     and_then (getitem opts ''remote_url'') (\<lambda>remote_url.
     and_then (update_download_dir_remote_url cli opts remote_url) (\<lambda>opts.
     and_then (import_dropbox_connector cli) (\<lambda>_.
     and_then (map_to_standard_config cli opts) (\<lambda>r.
     and_then (getitem (snd r) ''remote_url'') (\<lambda>config_path.
     and_then (getitem (snd r) ''recursive'') (\<lambda>config_recursive.
     and_then (getitem (snd r) ''token'') (\<lambda>token.
     and_then (SimpleDropboxConfig cli config_path config_recursive token) (\<lambda>cfg.
     and_then (DropboxConnector cli (fst r) cfg) (\<lambda>doc_connector.
     process_documents cli doc_connector (snd r))))))))))))))"

section \<open>Example data\<close>

text \<open>
  The tree of the spec's enumeration properties: \<open>root/a.txt\<close> and \<open>root/sub/b.txt\<close>, on
  the site \<open>https://t.sharepoint.com/sites/x\<close>, with one site page.
\<close>

definition example_config :: SimpleSharepointConfig where
  "example_config =
     \<lparr>client_id = Some ''id'', client_credential = Some ''secret'',
      site_url = Some ''https://t.sharepoint.com/sites/x'', path = ''root'',
      process_all = False, process_pages = False, recursive = False\<rparr>"

definition example_standard_config :: StandardConnectorConfig where
  "example_standard_config = \<lparr>std_download_dir = ''dl'', std_output_dir = ''out''\<rparr>"

definition example_connector :: SharepointConnector where
  "example_connector =
     \<lparr>connector_standard_config = example_standard_config,
      connector_config = example_config\<rparr>"

definition example_lib :: externals where
  "example_lib =
     \<lparr>EXT_TO_FILETYPE = [Some ''.txt'', Some ''.html'', None],
      unescape = (\<lambda>s. s),
      urlparse_path = (\<lambda>u. ''/sites/x'')\<rparr>"

definition example_world :: world where
  "example_world =
     \<lparr>cwd = [''work''], fs = Map.empty, logs = [], requests = [],
      installed = [''office365'']\<rparr>"

definition file_a :: File where
  "file_a =
     \<lparr>name = ''a.txt'', serverRelativeUrl = ''/sites/x/root/a.txt'', properties = [],
      transfer = Delivered ''alpha'', listItemAllFields = Inr []\<rparr>"

definition file_b :: File where
  "file_b =
     \<lparr>name = ''b.txt'', serverRelativeUrl = ''/sites/x/root/sub/b.txt'', properties = [],
      transfer = Delivered ''beta'', listItemAllFields = Inr []\<rparr>"

definition sub_folder :: Folder where
  "sub_folder = Folder ''/sites/x/root/sub'' (Inr True) (Inr ([file_b], []))"

definition root_folder :: Folder where
  "root_folder = Folder ''/sites/x/root'' (Inr True) (Inr ([file_a], [sub_folder]))"

definition home_page :: File where
  "home_page =
     \<lparr>name = ''Home.aspx'', serverRelativeUrl = ''/SitePages/Home.aspx'', properties = [],
      transfer = Delivered [], listItemAllFields = Inr [(''CanvasContent1'', Some ''<p>hi</p>'')]\<rparr>"

definition example_site :: ClientContext where
  "example_site =
     \<lparr>base_url = ''https://t.sharepoint.com/sites/x'',
      get_folder_by_server_relative_path =
        (\<lambda>p. if p = ''root'' then root_folder
             else Folder p (Inr False) (Inl (TransferError ''404''))),
      get_file_by_server_relative_path = (\<lambda>p. home_page\<lparr>serverRelativeUrl := p\<rparr>),
      site_pages = Inr [[(''Url'', ''SitePages/Home.aspx'')]]\<rparr>"

text \<open>The record that enumeration builds for \<open>root/a.txt\<close>, and variants of its file.\<close>

definition doc_a :: SharepointIngestDoc where
  "doc_a =
     \<lparr>standard_config = example_standard_config, config = example_config, doc_file = file_a,
      meta = None, ext = ''.txt'',
      download_dir = [''work'', ''dl'', ''sites'', ''x'', ''root''],
      download_filepath = [''work'', ''dl'', ''sites'', ''x'', ''root'', ''a.txt''],
      output_dir = [''work'', ''out'', ''sites'', ''x'', ''root''],
      output_filepath = [''work'', ''out'', ''sites'', ''x'', ''root'', ''a.json'']\<rparr>"

definition big_file_a :: File where
  "big_file_a = file_a\<lparr>properties := [(''size'', 512000001)]\<rparr>"

definition limit_file_a :: File where
  "limit_file_a = file_a\<lparr>properties := [(''size'', 512000000)]\<rparr>"

definition interrupted_file_a :: File where
  "interrupted_file_a =
     file_a\<lparr>transfer := Interrupted ''al'' (TransferError ''connection reset'')\<rparr>"

text \<open>A page record whose fields the source fails to deliver.\<close>

definition failing_page_doc :: SharepointIngestDoc where
  "failing_page_doc =
     \<lparr>standard_config = example_standard_config, config = example_config,
      doc_file = home_page\<lparr>listItemAllFields := Inl (TransferError ''timeout'')\<rparr>,
      meta = Some \<lparr>url = ''SitePages/Home.aspx'', site_path = Some ''sites/x''\<rparr>,
      ext = ''.html'',
      download_dir = [''work'', ''dl'', ''sites'', ''x'', ''SitePages''],
      download_filepath = [''work'', ''dl'', ''sites'', ''x'', ''SitePages'', ''Home.html''],
      output_dir = [''work'', ''out'', ''sites'', ''x'', ''SitePages''],
      output_filepath = [''work'', ''out'', ''sites'', ''x'', ''SitePages'', ''Home.json'']\<rparr>"

text \<open>A world in which \<open>root/a.txt\<close> has been downloaded before.\<close>

definition cached_world :: world where
  "cached_world =
     example_world\<lparr>fs := [[''work'', ''dl'', ''sites'', ''x'', ''root'', ''a.txt'']
                            \<mapsto> Regular ''alpha'']\<rparr>"

text \<open>Imports for the dropbox command under which every imported call succeeds.\<close>

definition example_cli :: "(unit, unit, unit) cli_imports" where
  "example_cli =
     \<lparr>run_init_checks = Inr,
      ingest_log_streaming_init = (\<lambda>_. Inr ()),
      log_options = Inr,
      update_download_dir_remote_url = (\<lambda>opts _. Inr opts),
      import_dropbox_connector = Inr (),
      map_to_standard_config = (\<lambda>opts. Inr ((), opts)),
      SimpleDropboxConfig = (\<lambda>_ _ _. Inr ()),
      DropboxConnector = (\<lambda>_ _. Inr ()),
      process_documents = (\<lambda>_ _. Inr ())\<rparr>"

section \<open>Unfolding the calls\<close>

lemmas io_defs = io_bind_def ret_def raise_def execute_query_def logger_def try_except_def

section \<open>Configuration\<close>

lemma config_post_init_ok:
  "config_post_init self = Inr () \<longleftrightarrow>
     truthy (client_id self) \<and> truthy (client_credential self) \<and> truthy (site_url self)"
  by (simp add: config_post_init_def)

text \<open>
  C6, as the spec states it, fails in its last part: the configuration is not immutable
  after construction. A configuration built from three non-empty values accepts the
  assignment of the empty string to \<open>client_id\<close>, and the object that results is one
  that the validation rejects.
\<close>

theorem C6_immutable_counterexample:
  "new_config (Some ''id'') (Some ''secret'') (Some ''https://t.sharepoint.com/sites/x'')
      ''root'' False False False = Inr example_config
   \<and> assign_client_id example_config (Some '''') = Inr (example_config\<lparr>client_id := Some ''''\<rparr>)
   \<and> example_config\<lparr>client_id := Some ''''\<rparr> \<noteq> example_config
   \<and> config_post_init (example_config\<lparr>client_id := Some ''''\<rparr>)
       = Inl (ValueError mandatory_values_message)"
  by (simp add: new_config_def config_post_init_def assign_client_id_def example_config_def Let_def)

text \<open>
  C6, amended: construction fails with the \<open>ValueError\<close> of the mandatory values, and
  returns no object, exactly when \<open>client_id\<close>, \<open>client_credential\<close> or \<open>site_url\<close> is
  \<open>None\<close> or empty; otherwise it returns the configuration holding the values given.
  Nothing freezes the object: a later assignment to a field succeeds.
\<close>

theorem C6_config_validated_at_construction:
  "new_config cid cred u p pall ppages rec =
     (if truthy cid \<and> truthy cred \<and> truthy u
      then Inr \<lparr>client_id = cid, client_credential = cred, site_url = u, path = p,
                process_all = pall, process_pages = ppages, recursive = rec\<rparr>
      else Inl (ValueError mandatory_values_message))
   \<and> (\<forall>cfg v. assign_client_id cfg v = Inr (cfg\<lparr>client_id := v\<rparr>))"
  by (simp add: new_config_def config_post_init_def assign_client_id_def Let_def)

text \<open>
  C6, witness: a missing credential is rejected, three values given are accepted.
\<close>

theorem C6_config_validated_at_construction_witness:
  "new_config (Some ''id'') None (Some ''https://t.sharepoint.com/sites/x'') ''root''
      False False False = Inl (ValueError mandatory_values_message)
   \<and> new_config (Some ''id'') (Some '''') (Some ''https://t.sharepoint.com/sites/x'') ''root''
      False False False = Inl (ValueError mandatory_values_message)
   \<and> new_config (Some ''id'') (Some ''secret'') (Some ''https://t.sharepoint.com/sites/x'')
      ''root'' False False False = Inr example_config"
  using C6_config_validated_at_construction
          [of "Some ''id''" None "Some ''https://t.sharepoint.com/sites/x''" "''root''"
              False False False]
        C6_config_validated_at_construction
          [of "Some ''id''" "Some ''''" "Some ''https://t.sharepoint.com/sites/x''" "''root''"
              False False False]
        C6_config_validated_at_construction
          [of "Some ''id''" "Some ''secret''" "Some ''https://t.sharepoint.com/sites/x''"
              "''root''" False False False]
  by (simp add: example_config_def)

section \<open>Extensions of the records\<close>

lemma split_on_absent: "c \<notin> set s \<Longrightarrow> split_on c s = [s]"
  by (induction s) auto

lemma split_on_nonempty: "split_on c s \<noteq> []"
  by (induction s) (auto split: list.splits)

lemma split_on_pieces: "p \<in> set (split_on c s) \<Longrightarrow> set p \<subseteq> set s"
proof (induction s arbitrary: p)
  case Nil
  then show ?case by simp
next
  case (Cons x xs)
  show ?case
  proof (cases "x = c")
    case True
    with Cons.prems have "p = [] \<or> p \<in> set (split_on c xs)" by simp
    with Cons.IH show ?thesis by auto
  next
    case False
    obtain y ys where sp: "split_on c xs = y # ys"
      using split_on_nonempty [of c xs] by (cases "split_on c xs") auto
    with False Cons.prems have "p = x # y \<or> p \<in> set ys" by simp
    moreover have "set y \<subseteq> set xs" using Cons.IH [of y] sp by simp
    moreover have "p \<in> set ys \<Longrightarrow> set p \<subseteq> set xs" using Cons.IH [of p] sp by simp
    ultimately show ?thesis by auto
  qed
qed

lemma path_name_chars: "set (path_name (Path s)) \<subseteq> set s"
proof (cases "parts (Path s) = []")
  case True
  then show ?thesis by (simp add: path_name_def)
next
  case False
  then have "last (parts (Path s)) \<in> set (parts (Path s))" by simp
  then have "last (parts (Path s)) \<in> set (split_on CHR ''/'' s)" by (simp add: Path_def)
  from split_on_pieces [OF this] False show ?thesis by (simp add: path_name_def)
qed

text \<open>A name without a dot has no suffixes.\<close>

lemma suffixes_without_dot:
  assumes "CHR ''.'' \<notin> set s"
  shows "suffixes (Path s) = []"
proof -
  have nd: "CHR ''.'' \<notin> set (path_name (Path s))" using assms path_name_chars by blast
  then have dw: "dropWhile (\<lambda>c. c = CHR ''.'') (path_name (Path s)) = path_name (Path s)"
    by (cases "path_name (Path s)") auto
  show ?thesis
    using nd by (auto simp: suffixes_def Let_def dw split_on_absent)
qed

text \<open>
  C4, as the spec states it, fails for page records: the site page \<open>SitePages/Home.aspx\<close>
  has the extension \<open>.aspx\<close>, which the table does not hold, and its ingest document is
  constructed all the same, with the extension \<open>.html\<close>.
\<close>

theorem C4_page_counterexample:
  "concat (suffixes (Path (name home_page))) = ''.aspx''
   \<and> Some ''.aspx'' \<notin> set (EXT_TO_FILETYPE example_lib)
   \<and> fst (new_SharepointIngestDoc example_lib example_standard_config example_config home_page
             (Some \<lparr>url = ''SitePages/Home.aspx'', site_path = Some ''sites/x''\<rparr>) example_world)
       = Inr \<lparr>standard_config = example_standard_config, config = example_config,
              doc_file = home_page,
              meta = Some \<lparr>url = ''SitePages/Home.aspx'', site_path = Some ''sites/x''\<rparr>,
              ext = ''.html'',
              download_dir = [''work'', ''dl'', ''sites'', ''x'', ''SitePages''],
              download_filepath = [''work'', ''dl'', ''sites'', ''x'', ''SitePages'', ''Home.html''],
              output_dir = [''work'', ''out'', ''sites'', ''x'', ''SitePages''],
              output_filepath = [''work'', ''out'', ''sites'', ''x'', ''SitePages'', ''Home.json'']\<rparr>"
  by code_simp

text \<open>
  C4, amended: for every file record (one constructed with \<open>meta\<close> \<open>None\<close>) whose
  filename has no extension, or whose extension (the suffixes of the name, joined) is
  not a key of \<open>EXT_TO_FILETYPE\<close>, construction raises \<open>ValueError\<close>
  (\<open>"Unsupported file without extension."\<close>, or \<open>"Extension not supported. ..."\<close>) and
  leaves the world as it was, so no record exists to be fetched. A name without any dot
  is a name without extension. Page records are exempt.
\<close>

theorem C4_file_without_supported_extension_rejected:
  "(concat (suffixes (Path (name f))) = [] \<longrightarrow>
      new_SharepointIngestDoc lib sc cfg f None w
        = (Inl (ValueError ''Unsupported file without extension.''), w))
   \<and> (concat (suffixes (Path (name f))) \<noteq> []
        \<and> Some (concat (suffixes (Path (name f)))) \<notin> set (EXT_TO_FILETYPE lib) \<longrightarrow>
      new_SharepointIngestDoc lib sc cfg f None w
        = (Inl (ValueError (extension_not_supported (EXT_TO_FILETYPE lib))), w))
   \<and> (CHR ''.'' \<notin> set (name f) \<longrightarrow>
      new_SharepointIngestDoc lib sc cfg f None w
        = (Inl (ValueError ''Unsupported file without extension.''), w))"
  by (simp add: new_SharepointIngestDoc_def doc_post_init_def raise_def Let_def
        suffixes_without_dot)

text \<open>
  C4, witness: \<open>README\<close> has no extension and \<open>file.xyz\<close> has one that the table does
  not hold; both are rejected.
\<close>

theorem C4_file_without_supported_extension_rejected_witness:
  "concat (suffixes (Path ''README'')) = []
   \<and> fst (new_SharepointIngestDoc example_lib example_standard_config example_config
          (file_a\<lparr>name := ''README''\<rparr>) None example_world)
     = Inl (ValueError ''Unsupported file without extension.'')
   \<and> concat (suffixes (Path ''file.xyz'')) = ''.xyz''
   \<and> fst (new_SharepointIngestDoc example_lib example_standard_config example_config
          (file_a\<lparr>name := ''file.xyz''\<rparr>) None example_world)
     = Inl (ValueError ''Extension not supported. Value MUST be one of .txt, .html.'')"
proof -
  have readme: "concat (suffixes (Path ''README'')) = []" by code_simp
  have no_dot: "CHR ''.'' \<notin> set ''README''" by simp
  have xyz: "concat (suffixes (Path ''file.xyz'')) = ''.xyz''" by code_simp
  have unknown: "Some ''.xyz'' \<notin> set (EXT_TO_FILETYPE example_lib)"
    by (simp add: example_lib_def)
  have msg: "extension_not_supported (EXT_TO_FILETYPE example_lib)
               = ''Extension not supported. Value MUST be one of .txt, .html.''"
    by (simp add: extension_not_supported_def example_lib_def)
  note x = C4_file_without_supported_extension_rejected
            [of "file_a\<lparr>name := ''file.xyz''\<rparr>" example_lib example_standard_config
                example_config example_world, THEN conjunct2, THEN conjunct1]
  have r1: "new_SharepointIngestDoc example_lib example_standard_config example_config
          (file_a\<lparr>name := ''README''\<rparr>) None example_world
     = (Inl (ValueError ''Unsupported file without extension.''), example_world)"
    using C4_file_without_supported_extension_rejected
            [of "file_a\<lparr>name := ''README''\<rparr>" example_lib example_standard_config
                example_config example_world, THEN conjunct1] readme
    by (simp del: concat_eq_Nil_conv)
  have r3: "new_SharepointIngestDoc example_lib example_standard_config example_config
          (file_a\<lparr>name := ''README''\<rparr>) None example_world
     = (Inl (ValueError ''Unsupported file without extension.''), example_world)"
    using C4_file_without_supported_extension_rejected
            [of "file_a\<lparr>name := ''README''\<rparr>" example_lib example_standard_config
                example_config example_world, THEN conjunct2, THEN conjunct2] no_dot
    by simp
  have x2: "new_SharepointIngestDoc example_lib example_standard_config example_config
          (file_a\<lparr>name := ''file.xyz''\<rparr>) None example_world
     = (Inl (ValueError (extension_not_supported (EXT_TO_FILETYPE example_lib))), example_world)"
    using x unknown xyz by (simp del: concat_eq_Nil_conv)
  from r1 r3 x2 msg readme xyz show ?thesis by (simp del: concat_eq_Nil_conv)
qed

text \<open>
  C9: for every page record (\<open>meta\<close> not \<open>None\<close>) the extension assigned is \<open>.html\<close>,
  whatever the file's name and the page's URL are; with \<open>.html\<close> a key of
  \<open>EXT_TO_FILETYPE\<close>, both extension checks pass and construction goes on to
  \<open>_set_download_paths\<close>: it never ends in either rejection.
\<close>

theorem C9_page_extension_is_html:
  assumes "Some ''.html'' \<in> set (EXT_TO_FILETYPE lib)"
  shows "new_SharepointIngestDoc lib sc cfg f (Some m) w =
           priv_set_download_paths
             \<lparr>standard_config = sc, config = cfg, doc_file = f, meta = Some m, ext = ''.html'',
              download_dir = [], download_filepath = [], output_dir = [],
              output_filepath = []\<rparr> w
       \<and> (\<forall>d. fst (new_SharepointIngestDoc lib sc cfg f (Some m) w) = Inr d \<longrightarrow> ext d = ''.html'')
       \<and> fst (new_SharepointIngestDoc lib sc cfg f (Some m) w)
            \<noteq> Inl (ValueError ''Unsupported file without extension.'')
       \<and> fst (new_SharepointIngestDoc lib sc cfg f (Some m) w)
            \<noteq> Inl (ValueError (extension_not_supported (EXT_TO_FILETYPE lib)))"
  using assms
  by (auto simp: new_SharepointIngestDoc_def doc_post_init_def raise_def Let_def
       priv_set_download_paths_def with_suffix_def extension_not_supported_def
       split: option.splits sum.splits if_splits)

text \<open>
  C9, witness: the page \<open>SitePages/Home.aspx\<close>, and a page whose file has no name at all.
\<close>

theorem C9_page_extension_is_html_witness:
  "Some ''.html'' \<in> set (EXT_TO_FILETYPE example_lib)
   \<and> fst (new_SharepointIngestDoc example_lib example_standard_config example_config
            (home_page\<lparr>name := []\<rparr>)
            (Some \<lparr>url = ''SitePages/Home.aspx'', site_path = None\<rparr>) example_world)
       = Inr \<lparr>standard_config = example_standard_config, config = example_config,
              doc_file = home_page\<lparr>name := []\<rparr>,
              meta = Some \<lparr>url = ''SitePages/Home.aspx'', site_path = None\<rparr>,
              ext = ''.html'',
              download_dir = [''work'', ''dl'', ''SitePages''],
              download_filepath = [''work'', ''dl'', ''SitePages'', ''Home.html''],
              output_dir = [''work'', ''out'', ''SitePages''],
              output_filepath = [''work'', ''out'', ''SitePages'', ''Home.json'']\<rparr>"
proof -
  have html: "Some ''.html'' \<in> set (EXT_TO_FILETYPE example_lib)"
    by (simp add: example_lib_def)
  have paths: "fst (priv_set_download_paths
             \<lparr>standard_config = example_standard_config, config = example_config,
              doc_file = home_page\<lparr>name := []\<rparr>,
              meta = Some \<lparr>url = ''SitePages/Home.aspx'', site_path = None\<rparr>, ext = ''.html'',
              download_dir = [], download_filepath = [], output_dir = [],
              output_filepath = []\<rparr> example_world)
       = Inr \<lparr>standard_config = example_standard_config, config = example_config,
              doc_file = home_page\<lparr>name := []\<rparr>,
              meta = Some \<lparr>url = ''SitePages/Home.aspx'', site_path = None\<rparr>,
              ext = ''.html'',
              download_dir = [''work'', ''dl'', ''SitePages''],
              download_filepath = [''work'', ''dl'', ''SitePages'', ''Home.html''],
              output_dir = [''work'', ''out'', ''SitePages''],
              output_filepath = [''work'', ''out'', ''SitePages'', ''Home.json'']\<rparr>"
    by code_simp
  show ?thesis
    using C9_page_extension_is_html [OF html, of example_standard_config example_config
            "home_page\<lparr>name := []\<rparr>" "\<lparr>url = ''SitePages/Home.aspx'', site_path = None\<rparr>"
            example_world]
          html paths
    by simp
qed

section \<open>Enumeration\<close>

text \<open>
  C1: the claim asks that a site be enumerated exactly when its root folder exists. The
  code tests the opposite: whenever the source answers that the folder exists,
  \<open>_ingest_site_docs\<close> logs "Folder ... does not exist. Skipping site ..." and returns the
  empty list, after the one request for \<open>Exists\<close> and without listing anything.
\<close>

theorem C1_existing_folder_is_skipped:
  assumes "exists_answer (get_folder_by_server_relative_path site_client
             (path (connector_config self))) = Inr True"
  shows "priv_ingest_site_docs lib self site_client w =
           (Inr [],
            w\<lparr>requests := requests w @
                 [FolderExists (folder_url (get_folder_by_server_relative_path site_client
                    (path (connector_config self))))],
              logs := logs w @
                 [(INFO, [Txt ''Folder '', Txt (path (connector_config self)),
                          Txt '' does not exist. Skipping site '',
                          Txt (base_url site_client)])]\<rparr>)"
  using assms by (simp add: priv_ingest_site_docs_def io_defs Let_def)

text \<open>
  C1, at the failing input: the folder \<open>root\<close> of the example site exists and holds
  \<open>a.txt\<close>, and enumeration returns no document; for the path \<open>nowhere\<close>, which does not
  exist, the code goes on to list the folder, and the source's error for the listing
  comes back.
\<close>

theorem C1_existing_folder_is_skipped_witness:
  "exists_answer (get_folder_by_server_relative_path example_site
       (path (connector_config example_connector))) = Inr True
   \<and> expand_answer (get_folder_by_server_relative_path example_site
       (path (connector_config example_connector))) = Inr ([file_a], [sub_folder])
   \<and> fst (priv_ingest_site_docs example_lib example_connector example_site
            example_world) = Inr []
   \<and> logs (snd (priv_ingest_site_docs example_lib example_connector example_site
            example_world))
       = [(INFO, [Txt ''Folder '', Txt ''root'', Txt '' does not exist. Skipping site '',
                  Txt ''https://t.sharepoint.com/sites/x''])]
   \<and> priv_ingest_site_docs example_lib
         (example_connector\<lparr>connector_config := example_config\<lparr>path := ''nowhere''\<rparr>\<rparr>)
         example_site example_world
       = (Inl (TransferError ''404''),
          example_world\<lparr>requests := [FolderExists ''nowhere'', FolderExpand ''nowhere'']\<rparr>)"
proof -
  have ex: "exists_answer (get_folder_by_server_relative_path example_site
       (path (connector_config example_connector))) = Inr True"
    by (simp add: example_site_def example_connector_def example_config_def root_folder_def)
  have missing: "priv_ingest_site_docs example_lib
         (example_connector\<lparr>connector_config := example_config\<lparr>path := ''nowhere''\<rparr>\<rparr>)
         example_site example_world
       = (Inl (TransferError ''404''),
          example_world\<lparr>requests := [FolderExists ''nowhere'', FolderExpand ''nowhere'']\<rparr>)"
    by (simp add: priv_ingest_site_docs_def io_defs Let_def example_site_def
          example_connector_def example_config_def priv_list_files_def example_world_def)
  show ?thesis
    using C1_existing_folder_is_skipped [OF ex, where lib = example_lib and w = example_world]
          ex missing
    by (simp add: example_site_def example_connector_def example_config_def root_folder_def
          example_world_def)
qed

text \<open>
  C2: the claim asks that recursive listing return the files of the root together with
  the files of every subfolder. With the flag false \<open>_list_files\<close> does return the files
  of the root only, and with the flag true it returns them when the root has no
  subfolder. As soon as the root has a subfolder, the loop looks up
  \<open>self._list_objects\<close>, which the class does not define, and the call ends in
  \<open>AttributeError\<close> after the one request for the root: no file is returned.
\<close>

theorem C2_recursive_listing_raises:
  "(expand_answer fld = Inr (files, folders) \<longrightarrow>
      priv_list_files fld False w
        = (Inr files, w\<lparr>requests := requests w @ [FolderExpand (folder_url fld)]\<rparr>))
   \<and> (expand_answer fld = Inr (files, []) \<longrightarrow>
      priv_list_files fld True w
        = (Inr files, w\<lparr>requests := requests w @ [FolderExpand (folder_url fld)]\<rparr>))
   \<and> (expand_answer fld = Inr (files, f # rest) \<longrightarrow>
      priv_list_files fld True w
        = (Inl (AttributeError no_attribute_list_objects),
           w\<lparr>requests := requests w @ [FolderExpand (folder_url fld)]\<rparr>))"
  by (simp add: priv_list_files_def priv_list_objects_def io_defs Let_def)

text \<open>
  C2, at the failing input: on the tree \<open>root/a.txt\<close>, \<open>root/sub/b.txt\<close> the flag false
  gives \<open>a.txt\<close>; the flag true raises at the subfolder \<open>sub\<close>, where the claim has
  \<open>a.txt\<close> and \<open>sub/b.txt\<close>; the folder \<open>sub\<close>, which has no subfolder, is listed with
  the flag true.
\<close>

theorem C2_recursive_listing_raises_witness:
  "expand_answer root_folder = Inr ([file_a], [sub_folder])
   \<and> expand_answer sub_folder = Inr ([file_b], [])
   \<and> fst (priv_list_files root_folder False example_world) = Inr [file_a]
   \<and> fst (priv_list_files root_folder True example_world)
       = Inl (AttributeError no_attribute_list_objects)
   \<and> fst (priv_list_files sub_folder True example_world) = Inr [file_b]"
proof -
  have root: "expand_answer root_folder = Inr ([file_a], [sub_folder])"
    by (simp add: root_folder_def)
  have sub: "expand_answer sub_folder = Inr ([file_b], [])"
    by (simp add: sub_folder_def)
  show ?thesis
    using C2_recursive_listing_raises
            [of root_folder "[file_a]" "[sub_folder]" example_world sub_folder "[]"]
          C2_recursive_listing_raises
            [of sub_folder "[file_b]" "[]" example_world sub_folder "[]"]
          root sub
    by simp
qed

lemma list_pages_loop_site_pages:
  "list_pages_loop lib (sc\<lparr>site_pages := x\<rparr>) acc ps = list_pages_loop lib sc acc ps"
  by (induction ps arbitrary: acc) (simp_all split: option.splits list.splits add: Let_def)

lemma list_pages_loop_stops:
  "map_of page ''Url'' = None \<Longrightarrow>
   list_pages_loop lib sc acc (before @ page # rest) = list_pages_loop lib sc acc (before @ [page])"
  by (induction before arbitrary: acc) (simp_all split: option.splits list.splits add: Let_def)

lemma list_pages_loop_omits:
  "map_of page ''Url'' = None \<Longrightarrow>
   fst (list_pages_loop lib sc acc (before @ [page]) w) = fst (list_pages_loop lib sc acc before w)"
  by (induction before arbitrary: acc)
     (simp_all split: option.splits list.splits add: Let_def io_defs)

text \<open>Pages that all have a non-empty URL are all kept, in order.\<close>

lemma list_pages_loop_keeps:
  "\<forall>q \<in> set before. \<exists>u. map_of q ''Url'' = Some u \<and> u \<noteq> [] \<Longrightarrow>
   \<exists>r. list_pages_loop lib sc acc before w = (Inr (acc @ r), w)
       \<and> map (\<lambda>e. Some (url (snd e))) r = map (\<lambda>q. map_of q ''Url'') before"
proof (induction before arbitrary: acc)
  case Nil
  show ?case by (simp add: ret_def)
next
  case (Cons q qs)
  from Cons.prems obtain u where u: "map_of q ''Url'' = Some u" "u \<noteq> []" by auto
  then obtain c cs where ucs: "u = c # cs" by (cases u) auto
  define e where
    "e = (get_file_by_server_relative_path sc (if c \<noteq> CHR ''/'' then ''/'' @ u else u),
          \<lparr>url = u,
           site_path = (if urlparse_path lib (base_url sc) \<noteq> []
                           \<and> urlparse_path lib (base_url sc) \<noteq> ''/''
                        then Some (drop 1 (urlparse_path lib (base_url sc))) else None)\<rparr>)"
  have step: "list_pages_loop lib sc acc (q # qs) w = list_pages_loop lib sc (acc @ [e]) qs w"
    using u(1) ucs by (simp add: Let_def e_def)
  have url_e: "url (snd e) = u" by (simp add: e_def)
  from Cons.prems have "\<forall>q \<in> set qs. \<exists>u. map_of q ''Url'' = Some u \<and> u \<noteq> []" by simp
  from Cons.IH [OF this, of "acc @ [e]"]
  obtain r where r: "list_pages_loop lib sc (acc @ [e]) qs w = (Inr ((acc @ [e]) @ r), w)"
    "map (\<lambda>e. Some (url (snd e))) r = map (\<lambda>q. map_of q ''Url'') qs" by blast
  have "list_pages_loop lib sc acc (q # qs) w = (Inr (acc @ (e # r)), w)"
    using step r(1) by simp
  moreover have "map (\<lambda>e. Some (url (snd e))) (e # r) = map (\<lambda>q. map_of q ''Url'') (q # qs)"
    using u(1) url_e r(2) by simp
  ultimately show ?case by blast
qed

text \<open>
  C8: when a page of the listing has no \<open>Url\<close> property, \<open>_list_pages\<close> returns what it
  returns for the pages before that page alone: the page and every page after it are
  left out. When the pages before it all have a non-empty URL, the result holds exactly
  these pages, in order.
\<close>

theorem C8_list_pages_stops_at_missing_url:
  assumes "map_of page ''Url'' = None"
  shows "fst (priv_list_pages lib (sc\<lparr>site_pages := Inr (before @ page # rest)\<rparr>) w)
           = fst (priv_list_pages lib (sc\<lparr>site_pages := Inr before\<rparr>) w)
       \<and> ((\<forall>q \<in> set before. \<exists>u. map_of q ''Url'' = Some u \<and> u \<noteq> []) \<longrightarrow>
            (\<exists>r. fst (priv_list_pages lib (sc\<lparr>site_pages := Inr (before @ page # rest)\<rparr>) w)
                    = Inr r
               \<and> map (\<lambda>e. Some (url (snd e))) r = map (\<lambda>q. map_of q ''Url'') before))"
proof -
  let ?w = "w\<lparr>requests := requests w @ [SitePages]\<rparr>"
  have stop: "fst (list_pages_loop lib sc [] (before @ page # rest) ?w)
                = fst (list_pages_loop lib sc [] before ?w)"
    using list_pages_loop_stops [OF assms, of lib sc "[]" before rest]
          list_pages_loop_omits [OF assms, of lib sc "[]" before ?w]
    by simp
  have first: "fst (priv_list_pages lib (sc\<lparr>site_pages := Inr (before @ page # rest)\<rparr>) w)
           = fst (priv_list_pages lib (sc\<lparr>site_pages := Inr before\<rparr>) w)"
    using stop
    by (simp add: priv_list_pages_def io_bind_def execute_query_def list_pages_loop_site_pages)
  have second: "\<exists>r. fst (priv_list_pages lib (sc\<lparr>site_pages := Inr (before @ page # rest)\<rparr>) w)
                       = Inr r
               \<and> map (\<lambda>e. Some (url (snd e))) r = map (\<lambda>q. map_of q ''Url'') before"
    if h: "\<forall>q \<in> set before. \<exists>u. map_of q ''Url'' = Some u \<and> u \<noteq> []"
  proof -
    from list_pages_loop_keeps [OF h, of lib sc "[]" ?w]
    obtain r where r: "list_pages_loop lib sc [] before ?w = (Inr r, ?w)"
      "map (\<lambda>e. Some (url (snd e))) r = map (\<lambda>q. map_of q ''Url'') before" by auto
    have "fst (priv_list_pages lib (sc\<lparr>site_pages := Inr before\<rparr>) w) = Inr r"
      using r(1)
      by (simp add: priv_list_pages_def io_bind_def execute_query_def list_pages_loop_site_pages)
    with first r(2) show ?thesis by auto
  qed
  from first second show ?thesis by blast
qed

text \<open>
  C8, witness: of the three pages \<open>Home\<close>, a draft without URL and \<open>News\<close>, only \<open>Home\<close>
  is listed; without the draft, both \<open>Home\<close> and \<open>News\<close> are.
\<close>

theorem C8_list_pages_stops_at_missing_url_witness:
  "map_of [(''Title'', ''Draft'')] ''Url'' = None
   \<and> map_of [(''Url'', ''SitePages/Home.aspx'')] ''Url'' = Some ''SitePages/Home.aspx''
   \<and> fst (priv_list_pages example_lib
          (example_site\<lparr>site_pages := Inr ([[(''Url'', ''SitePages/Home.aspx'')]] @
              [(''Title'', ''Draft'')] # [[(''Url'', ''SitePages/News.aspx'')]])\<rparr>) example_world)
     = Inr [(home_page\<lparr>serverRelativeUrl := ''/SitePages/Home.aspx''\<rparr>,
             \<lparr>url = ''SitePages/Home.aspx'', site_path = Some ''sites/x''\<rparr>)]
   \<and> fst (priv_list_pages example_lib
          (example_site\<lparr>site_pages := Inr [[(''Url'', ''SitePages/Home.aspx'')],
              [(''Url'', ''SitePages/News.aspx'')]]\<rparr>) example_world)
     = Inr [(home_page\<lparr>serverRelativeUrl := ''/SitePages/Home.aspx''\<rparr>,
             \<lparr>url = ''SitePages/Home.aspx'', site_path = Some ''sites/x''\<rparr>),
            (home_page\<lparr>serverRelativeUrl := ''/SitePages/News.aspx''\<rparr>,
             \<lparr>url = ''SitePages/News.aspx'', site_path = Some ''sites/x''\<rparr>)]"
proof -
  have no_url: "map_of [(''Title'', ''Draft'')] ''Url'' = None" by simp
  have kept: "\<forall>q \<in> set [[(''Url'', ''SitePages/Home.aspx'')]].
                \<exists>u. map_of q ''Url'' = Some u \<and> u \<noteq> []" by simp
  have prefix: "fst (priv_list_pages example_lib
          (example_site\<lparr>site_pages := Inr [[(''Url'', ''SitePages/Home.aspx'')]]\<rparr>) example_world)
     = Inr [(home_page\<lparr>serverRelativeUrl := ''/SitePages/Home.aspx''\<rparr>,
             \<lparr>url = ''SitePages/Home.aspx'', site_path = Some ''sites/x''\<rparr>)]"
    by (simp add: priv_list_pages_def io_defs example_site_def example_lib_def Let_def)
  have both: "fst (priv_list_pages example_lib
          (example_site\<lparr>site_pages := Inr [[(''Url'', ''SitePages/Home.aspx'')],
              [(''Url'', ''SitePages/News.aspx'')]]\<rparr>) example_world)
     = Inr [(home_page\<lparr>serverRelativeUrl := ''/SitePages/Home.aspx''\<rparr>,
             \<lparr>url = ''SitePages/Home.aspx'', site_path = Some ''sites/x''\<rparr>),
            (home_page\<lparr>serverRelativeUrl := ''/SitePages/News.aspx''\<rparr>,
             \<lparr>url = ''SitePages/News.aspx'', site_path = Some ''sites/x''\<rparr>)]"
    by (simp add: priv_list_pages_def io_defs example_site_def example_lib_def Let_def)
  note stops = C8_list_pages_stops_at_missing_url [OF no_url, where lib = example_lib
         and sc = example_site and before = "[[(''Url'', ''SitePages/Home.aspx'')]]"
         and rest = "[[(''Url'', ''SitePages/News.aspx'')]]" and w = example_world]
  from stops kept obtain r where
    "fst (priv_list_pages example_lib
          (example_site\<lparr>site_pages := Inr ([[(''Url'', ''SitePages/Home.aspx'')]] @
              [(''Title'', ''Draft'')] # [[(''Url'', ''SitePages/News.aspx'')]])\<rparr>) example_world)
       = Inr r" by blast
  from stops have "fst (priv_list_pages example_lib
          (example_site\<lparr>site_pages := Inr ([[(''Url'', ''SitePages/Home.aspx'')]] @
              [(''Title'', ''Draft'')] # [[(''Url'', ''SitePages/News.aspx'')]])\<rparr>) example_world)
     = fst (priv_list_pages example_lib
          (example_site\<lparr>site_pages := Inr [[(''Url'', ''SitePages/Home.aspx'')]]\<rparr>) example_world)"
    by blast
  with prefix both show ?thesis by simp
qed

section \<open>Fetching\<close>

text \<open>Creating directories and opening a file touch the file system only.\<close>

lemma mkdir_exist_ok_frame:
  "cwd (snd (mkdir_exist_ok p w)) = cwd w \<and> requests (snd (mkdir_exist_ok p w)) = requests w
   \<and> logs (snd (mkdir_exist_ok p w)) = logs w"
  by (simp add: mkdir_exist_ok_def try_except_def os_mkdir_def)

lemma mkdir_parents_exist_ok_frame:
  "cwd (snd (mkdir_parents_exist_ok p w)) = cwd w
   \<and> requests (snd (mkdir_parents_exist_ok p w)) = requests w
   \<and> logs (snd (mkdir_parents_exist_ok p w)) = logs w"
proof (induction p arbitrary: w rule: rev_induct)
  case Nil
  show ?case
    by (subst mkdir_parents_exist_ok.simps, subst (2) mkdir_parents_exist_ok.simps,
        subst (3) mkdir_parents_exist_ok.simps)
       (simp add: try_except_def os_mkdir_def path_exists_def is_dir_def)
next
  case (snoc x xs)
  obtain r1 w1 where m: "mkdir_parents_exist_ok xs w = (r1, w1)"
    by (cases "mkdir_parents_exist_ok xs w")
  from snoc [of w] m have f1: "cwd w1 = cwd w" "requests w1 = requests w" "logs w1 = logs w"
    by simp_all
  from mkdir_exist_ok_frame [of "xs @ [x]" w1] f1
  have f2: "cwd (snd (mkdir_exist_ok (xs @ [x]) w1)) = cwd w"
    "requests (snd (mkdir_exist_ok (xs @ [x]) w1)) = requests w"
    "logs (snd (mkdir_exist_ok (xs @ [x]) w1)) = logs w" by simp_all
  show ?case
    apply (subst mkdir_parents_exist_ok.simps)
    apply (subst (2) mkdir_parents_exist_ok.simps)
    apply (subst (3) mkdir_parents_exist_ok.simps)
    using m f1 f2
    apply (auto simp: try_except_def os_mkdir_def io_bind_def split: sum.splits prod.splits)
    done
qed

lemma prepare_dirs_frame:
  "cwd (snd (prepare_dirs self w)) = cwd w \<and> requests (snd (prepare_dirs self w)) = requests w"
proof -
  obtain r1 w1 where m: "mkdir_parents_exist_ok (output_dir self) w = (r1, w1)"
    by (cases "mkdir_parents_exist_ok (output_dir self) w")
  from mkdir_parents_exist_ok_frame [of "output_dir self" w] m
  have f1: "cwd w1 = cwd w" "requests w1 = requests w" by simp_all
  let ?w2 = "w1\<lparr>logs := logs w1 @
               [(DEBUG, [Txt ''Creating directory: '', Pth (download_dir self)])]\<rparr>"
  from mkdir_parents_exist_ok_frame [of "download_dir self" ?w2] f1
  have f2: "cwd (snd (mkdir_parents_exist_ok (download_dir self) ?w2)) = cwd w"
    "requests (snd (mkdir_parents_exist_ok (download_dir self) ?w2)) = requests w" by simp_all
  show ?thesis
    using m f1 f2 by (cases r1) (simp_all add: prepare_dirs_def io_defs)
qed

lemma open_write_logs:
  "open_write p (w\<lparr>logs := l\<rparr>) =
     (fst (open_write p w), (snd (open_write p w))\<lparr>logs := l\<rparr>)"
  by (simp add: open_write_def path_exists_def is_dir_def)

lemma open_write_frame:
  "cwd (snd (open_write p w)) = cwd w \<and> requests (snd (open_write p w)) = requests w"
  by (simp add: open_write_def)

text \<open>
  What \<open>_get_file\<close> sends: nothing when the directories cannot be prepared or the file
  cannot be opened, else one request, chosen by the size.
\<close>

lemma get_file_try_requests:
  "requests (snd (get_file_try self w)) =
     requests w @
     (if fst (prepare_dirs self w) = Inr ()
         \<and> fst (open_write (filename self w) (snd (prepare_dirs self w))) = Inr ()
      then [if MAX_MB_SIZE < get_property (properties (doc_file self)) ''size'' 0
            then DownloadSession (serverRelativeUrl (doc_file self)) (1024 * 1024 * 100)
            else Download (serverRelativeUrl (doc_file self))]
      else [])"
proof -
  obtain r1 w1 where p: "prepare_dirs self w = (r1, w1)" by (cases "prepare_dirs self w")
  from prepare_dirs_frame [of self w] p have f1: "cwd w1 = cwd w" "requests w1 = requests w"
    by simp_all
  obtain r2 w2 where o: "open_write (filename self w) w1 = (r2, w2)"
    by (cases "open_write (filename self w) w1")
  from open_write_frame [of "filename self w" w1] o f1
  have f2: "cwd w2 = cwd w" "requests w2 = requests w" by simp_all
  show ?thesis
  proof (cases r1)
    case (Inl e)
    with p f1 show ?thesis by (simp add: get_file_try_def io_defs Let_def)
  next
    case (Inr u)
    show ?thesis
    proof (cases r2)
      case (Inl e)
      with p Inr o f1 f2 show ?thesis
        by (simp add: get_file_try_def io_defs Let_def open_write_logs filename_def)
    next
      case r2: (Inr u2)
      with p Inr o f1 f2 show ?thesis
        by (cases "transfer (doc_file self)")
           (simp_all add: get_file_try_def io_defs Let_def open_write_logs filename_def
              download_def download_session_def receive_def write_bytes_def)
    qed
  qed
qed

lemma priv_get_file_requests:
  "requests (snd (priv_get_file self w)) = requests (snd (get_file_try self w))"
  by (cases "get_file_try self w"; cases "fst (get_file_try self w)")
     (simp_all add: priv_get_file_def download_failed_def io_defs)

lemma get_file_try_interrupted:
  assumes "transfer (doc_file self) = Interrupted content e"
    and "fst (prepare_dirs self w) = Inr ()"
    and "fst (open_write (filename self w) (snd (prepare_dirs self w))) = Inr ()"
  shows "fst (get_file_try self w) = Inl e"
proof -
  obtain r1 w1 where p: "prepare_dirs self w = (r1, w1)" by (cases "prepare_dirs self w")
  from prepare_dirs_frame [of self w] p have f1: "cwd w1 = cwd w" by simp
  obtain r2 w2 where o: "open_write (filename self w) w1 = (r2, w2)"
    by (cases "open_write (filename self w) w1")
  from assms(2,3) p o have r: "r1 = Inr ()" "r2 = Inr ()" by simp_all
  show ?thesis
    using p o r f1 assms(1)
    by (simp add: get_file_try_def io_defs Let_def open_write_logs filename_def
          download_def download_session_def receive_def write_bytes_def)
qed

lemma priv_get_file_caught:
  "get_file_try self w = (Inl e, w1) \<Longrightarrow>
   priv_get_file self w =
     (Inr self,
      w1\<lparr>logs := logs w1 @
         [(ERROR, [Txt ''Error while downloading and saving file: '', Pth (filename self w1),
                   Txt ''.'']),
          (ERROR, [Exc e])]\<rparr>)"
  by (simp add: priv_get_file_def download_failed_def io_defs)

lemma priv_get_page_caught:
  "get_page_try lib self w = (Inl e, w1) \<Longrightarrow>
   priv_get_page lib self w =
     (Inr self,
      w1\<lparr>logs := logs w1 @
         [(ERROR, [Txt ''Error while downloading and saving file: '', Pth (filename self w1),
                   Txt ''.'']),
          (ERROR, [Exc e])]\<rparr>)"
  by (simp add: priv_get_page_def download_failed_def io_defs)

lemma priv_get_file_returns: "fst (priv_get_file self w) = Inr self"
  by (cases "get_file_try self w"; cases "fst (get_file_try self w)")
     (simp_all add: priv_get_file_def download_failed_def io_defs)

lemma priv_get_page_returns: "fst (priv_get_page lib self w) = Inr self"
  by (cases "get_page_try lib self w"; cases "fst (get_page_try lib self w)")
     (simp_all add: priv_get_page_def download_failed_def io_defs)

text \<open>In the example world the directories of \<open>doc_a\<close> can be made and its file opened.\<close>

lemma prepare_example:
  "fst (prepare_dirs (doc_a\<lparr>doc_file := f\<rparr>) example_world) = Inr ()"
  "fst (open_write (filename (doc_a\<lparr>doc_file := f\<rparr>) example_world)
         (snd (prepare_dirs (doc_a\<lparr>doc_file := f\<rparr>) example_world))) = Inr ()"
  by code_simp+

text \<open>
  C7: once the directories are prepared and the file is open, \<open>_get_file\<close> sends exactly
  one request: the chunked \<open>download_session\<close> (chunks of 1024 * 1024 * 100 bytes) when
  the size the source reports is above 512,000,000, and the single \<open>download\<close> when it
  is at or below it (a size that is not reported counts as 0). When the preparation
  fails, no request is sent.
\<close>

theorem C7_chunked_iff_size_exceeds_threshold:
  "requests (snd (priv_get_file self w)) =
     requests w @
     (if fst (prepare_dirs self w) = Inr ()
         \<and> fst (open_write (filename self w) (snd (prepare_dirs self w))) = Inr ()
      then [if 512000000 < get_property (properties (doc_file self)) ''size'' 0
            then DownloadSession (serverRelativeUrl (doc_file self)) 104857600
            else Download (serverRelativeUrl (doc_file self))]
      else [])"
  by (simp add: priv_get_file_requests get_file_try_requests MAX_MB_SIZE_def)

text \<open>
  C7, witness: 512,000,001 bytes are streamed in chunks; 512,000,000 bytes and a file
  of unreported size are downloaded in one call.
\<close>

theorem C7_chunked_iff_size_exceeds_threshold_witness:
  "requests (snd (priv_get_file (doc_a\<lparr>doc_file := big_file_a\<rparr>) example_world))
     = [DownloadSession ''/sites/x/root/a.txt'' 104857600]
   \<and> requests (snd (priv_get_file (doc_a\<lparr>doc_file := limit_file_a\<rparr>) example_world))
     = [Download ''/sites/x/root/a.txt'']
   \<and> requests (snd (priv_get_file doc_a example_world)) = [Download ''/sites/x/root/a.txt'']"
  using C7_chunked_iff_size_exceeds_threshold [of "doc_a\<lparr>doc_file := big_file_a\<rparr>" example_world]
        C7_chunked_iff_size_exceeds_threshold [of "doc_a\<lparr>doc_file := limit_file_a\<rparr>" example_world]
        C7_chunked_iff_size_exceeds_threshold [of "doc_a\<lparr>doc_file := file_a\<rparr>" example_world]
        prepare_example [of big_file_a] prepare_example [of limit_file_a] prepare_example [of file_a]
  by (simp add: big_file_a_def limit_file_a_def file_a_def get_property_def example_world_def
        doc_a_def)

text \<open>
  C5, as the spec states it, fails in one part: a record is never marked. The download
  of \<open>a.txt\<close> is interrupted; \<open>_get_file\<close> logs the two error lines and returns, and the
  record it leaves is the record it was given, field for field.
\<close>

theorem C5_no_failed_mark_counterexample:
  "fst (priv_get_file (doc_a\<lparr>doc_file := interrupted_file_a\<rparr>) example_world)
     = Inr (doc_a\<lparr>doc_file := interrupted_file_a\<rparr>)
   \<and> logs (snd (priv_get_file (doc_a\<lparr>doc_file := interrupted_file_a\<rparr>) example_world))
     = [(DEBUG, [Txt ''Creating directory: '', Pth [''work'', ''dl'', ''sites'', ''x'', ''root'']]),
        (ERROR, [Txt ''Error while downloading and saving file: '',
                 Pth [''work'', ''dl'', ''sites'', ''x'', ''root'', ''a.txt''], Txt ''.'']),
        (ERROR, [Exc (TransferError ''connection reset'')])]"
  by code_simp

text \<open>
  C5, amended: when the \<open>try\<close> block of \<open>_get_file\<close> or of \<open>_get_page\<close> raises, the
  exception is caught in the method: two lines are logged at level ERROR (the download
  path, then the exception) and the call returns without raising, so the caller goes on
  to the next record. An interrupted transfer and a failed request for the page's fields
  are such exceptions. The record is left as it was: the class keeps no state of the
  record.
\<close>

theorem C5_transfer_error_is_caught_and_logged:
  "(get_file_try self w = (Inl e, w1) \<longrightarrow>
      priv_get_file self w =
        (Inr self,
         w1\<lparr>logs := logs w1 @
            [(ERROR, [Txt ''Error while downloading and saving file: '', Pth (filename self w1),
                      Txt ''.'']),
             (ERROR, [Exc e])]\<rparr>))
   \<and> (get_page_try lib self w = (Inl e, w1) \<longrightarrow>
      priv_get_page lib self w =
        (Inr self,
         w1\<lparr>logs := logs w1 @
            [(ERROR, [Txt ''Error while downloading and saving file: '', Pth (filename self w1),
                      Txt ''.'']),
             (ERROR, [Exc e])]\<rparr>))
   \<and> (transfer (doc_file self) = Interrupted content e
        \<and> fst (prepare_dirs self w) = Inr ()
        \<and> fst (open_write (filename self w) (snd (prepare_dirs self w))) = Inr () \<longrightarrow>
      fst (get_file_try self w) = Inl e)
   \<and> (listItemAllFields (doc_file self) = Inl e \<longrightarrow> fst (get_page_try lib self w) = Inl e)
   \<and> fst (priv_get_file self w) = Inr self
   \<and> fst (priv_get_page lib self w) = Inr self"
  using priv_get_file_caught [of self w e w1] priv_get_page_caught [of lib self w e w1]
        get_file_try_interrupted [of self content e w]
        priv_get_file_returns [of self w] priv_get_page_returns [of lib self w]
  by (simp add: get_page_try_def io_defs)

text \<open>
  C5, witness: the interrupted download of \<open>a.txt\<close> and the failed request for the fields
  of a page both raise inside the \<open>try\<close> block; the method logs the two lines and
  returns.
\<close>

theorem C5_transfer_error_is_caught_and_logged_witness:
  "fst (get_file_try (doc_a\<lparr>doc_file := interrupted_file_a\<rparr>) example_world)
      = Inl (TransferError ''connection reset'')
   \<and> priv_get_file (doc_a\<lparr>doc_file := interrupted_file_a\<rparr>) example_world
      = (Inr (doc_a\<lparr>doc_file := interrupted_file_a\<rparr>),
         (snd (get_file_try (doc_a\<lparr>doc_file := interrupted_file_a\<rparr>) example_world))
           \<lparr>logs := logs (snd (get_file_try (doc_a\<lparr>doc_file := interrupted_file_a\<rparr>) example_world)) @
              [(ERROR, [Txt ''Error while downloading and saving file: '',
                        Pth [''work'', ''dl'', ''sites'', ''x'', ''root'', ''a.txt''], Txt ''.'']),
               (ERROR, [Exc (TransferError ''connection reset'')])]\<rparr>)
   \<and> fst (get_page_try example_lib failing_page_doc example_world) = Inl (TransferError ''timeout'')
   \<and> priv_get_page example_lib failing_page_doc example_world
      = (Inr failing_page_doc,
         example_world\<lparr>requests := [ListItemAllFields ''/SitePages/Home.aspx''],
           logs := [(ERROR, [Txt ''Error while downloading and saving file: '',
                        Pth [''work'', ''dl'', ''sites'', ''x'', ''SitePages'', ''Home.html''], Txt ''.'']),
               (ERROR, [Exc (TransferError ''timeout'')])]\<rparr>)"
proof -
  let ?d = "doc_a\<lparr>doc_file := interrupted_file_a\<rparr>"
  let ?e = "TransferError ''connection reset''"
  let ?w1 = "snd (get_file_try ?d example_world)"
  note file_case = C5_transfer_error_is_caught_and_logged
          [of ?d example_world ?e ?w1 example_lib "''al''"]
  have interrupted: "transfer (doc_file ?d) = Interrupted ''al'' ?e"
    by (simp add: interrupted_file_a_def)
  from file_case interrupted prepare_example [of interrupted_file_a]
  have raised: "fst (get_file_try ?d example_world) = Inl ?e" by simp
  then have "get_file_try ?d example_world = (Inl ?e, ?w1)" by (simp add: prod_eq_iff)
  with file_case have caught: "priv_get_file ?d example_world =
        (Inr ?d,
         ?w1\<lparr>logs := logs ?w1 @
            [(ERROR, [Txt ''Error while downloading and saving file: '', Pth (filename ?d ?w1),
                      Txt ''.'']),
             (ERROR, [Exc ?e])]\<rparr>)" by blast
  have cwd1: "cwd ?w1 = [''work'']" by code_simp
  have fn: "filename ?d ?w1 = [''work'', ''dl'', ''sites'', ''x'', ''root'', ''a.txt'']"
    unfolding filename_def cwd1 by code_simp
  let ?p = failing_page_doc
  let ?t = "TransferError ''timeout''"
  let ?w2 = "example_world\<lparr>requests := [ListItemAllFields ''/SitePages/Home.aspx'']\<rparr>"
  note page_case = C5_transfer_error_is_caught_and_logged
          [of ?p example_world ?t ?w2 example_lib "''''"]
  have no_fields: "listItemAllFields (doc_file ?p) = Inl ?t"
    by (simp add: failing_page_doc_def)
  have page_try: "get_page_try example_lib ?p example_world = (Inl ?t, ?w2)"
    by (simp add: get_page_try_def io_defs failing_page_doc_def home_page_def example_world_def)
  from page_case page_try have page_caught: "priv_get_page example_lib ?p example_world =
        (Inr ?p,
         ?w2\<lparr>logs := logs ?w2 @
            [(ERROR, [Txt ''Error while downloading and saving file: '', Pth (filename ?p ?w2),
                      Txt ''.'']),
             (ERROR, [Exc ?t])]\<rparr>)" by blast
  have fn2: "filename ?p ?w2 = [''work'', ''dl'', ''sites'', ''x'', ''SitePages'', ''Home.html'']"
    by code_simp
  from page_case no_fields have page_raised: "fst (get_page_try example_lib ?p example_world) = Inl ?t"
    by blast
  show ?thesis
    using raised caught fn page_raised page_caught fn2
    by (simp add: example_world_def)
qed

text \<open>
  C3: for a record whose download path holds a non-empty file, \<open>get_file\<close> returns at
  once: it logs the skip, sends no request and leaves the file system as it was; a
  second call does the same.
\<close>

theorem C3_cached_download_is_skipped:
  assumes "st_size w (filename self w) = Some n" and "0 < n"
  shows "get_file lib self w =
           (Inr self,
            w\<lparr>logs := logs w @
               [(DEBUG, [Txt ''File exists: '', Pth (filename self w), Txt '', skipping''])]\<rparr>)
       \<and> requests (snd (get_file lib self w)) = requests w
       \<and> fs (snd (get_file lib self w)) = fs w
       \<and> requests (snd (get_file lib self (snd (get_file lib self w)))) = requests w
       \<and> fs (snd (get_file lib self (snd (get_file lib self w)))) = fs w"
proof -
  let ?w' = "w\<lparr>logs := logs w @
               [(DEBUG, [Txt ''File exists: '', Pth (filename self w), Txt '', skipping''])]\<rparr>"
  have skip: "get_file lib self w = (Inr self, ?w')"
    using assms by (simp add: get_file_def skip_if_file_exists_def io_defs)
  have "filename self ?w' = filename self w" by (simp add: filename_def)
  moreover have "st_size ?w' (filename self w) = st_size w (filename self w)"
    by (simp add: st_size_def)
  ultimately have "st_size ?w' (filename self ?w') = Some n"
    using assms(1) by simp
  then have again: "get_file lib self ?w' =
      (Inr self, ?w'\<lparr>logs := logs ?w' @
               [(DEBUG, [Txt ''File exists: '', Pth (filename self ?w'), Txt '', skipping''])]\<rparr>)"
    using assms(2) by (simp add: get_file_def skip_if_file_exists_def io_defs)
  show ?thesis
    using skip again by simp
qed

text \<open>
  C3, witness: with \<open>a.txt\<close> already at its download path, fetching it sends nothing and
  the content stays; in the world without it, the same call sends one download.
\<close>

theorem C3_cached_download_is_skipped_witness:
  "st_size cached_world (filename doc_a cached_world) = Some 5
   \<and> requests (snd (get_file example_lib doc_a cached_world)) = []
   \<and> fs (snd (get_file example_lib doc_a cached_world))
        [''work'', ''dl'', ''sites'', ''x'', ''root'', ''a.txt''] = Some (Regular ''alpha'')
   \<and> requests (snd (get_file example_lib doc_a example_world))
        = [Download ''/sites/x/root/a.txt'']"
proof -
  have size: "st_size cached_world (filename doc_a cached_world) = Some 5"
    by code_simp
  have fresh: "requests (snd (get_file example_lib doc_a example_world))
        = [Download ''/sites/x/root/a.txt'']"
    by code_simp
  from C3_cached_download_is_skipped [OF size, of example_lib]
  show ?thesis
    using size fresh by (simp add: cached_world_def example_world_def)
qed

section \<open>The dropbox command\<close>

text \<open>
  C10: the handler of the dropbox command is called with the keys of its three declared
  options, and \<open>verbose\<close> is not one of them. When \<open>run_init_checks\<close> returns, the next
  statement looks \<open>verbose\<close> up in the dictionary; unless the checks have put the key
  there, the handler ends with \<open>KeyError\<close>.
\<close>

theorem C10_dropbox_reads_undeclared_verbose:
  "''verbose'' \<notin> set declared_options
   \<and> map fst (invocation rec remote_url token) = declared_options
   \<and> map_of (invocation rec remote_url token) ''verbose'' = None
   \<and> (run_init_checks cli (invocation rec remote_url token) = Inr opts'
        \<and> map_of opts' ''verbose'' = None
        \<longrightarrow> dropbox cli (invocation rec remote_url token) = Inl (KeyError ''verbose''))"
  by (simp add: declared_options_def invocation_def dropbox_def and_then_def getitem_def)

text \<open>
  C10, witness: with imports that all succeed, the call with the declared options ends
  in the \<open>KeyError\<close>; the same call with a \<open>verbose\<close> key added runs to its end.
\<close>

theorem C10_dropbox_reads_undeclared_verbose_witness:
  "dropbox example_cli (invocation False ''dropbox://docs'' ''secret'') = Inl (KeyError ''verbose'')
   \<and> dropbox example_cli (invocation False ''dropbox://docs'' ''secret'' @ [(''verbose'', PyBool False)])
       = Inr ()"
proof -
  have checks: "run_init_checks example_cli (invocation False ''dropbox://docs'' ''secret'')
                  = Inr (invocation False ''dropbox://docs'' ''secret'')"
    by (simp add: example_cli_def)
  have full: "dropbox example_cli
                (invocation False ''dropbox://docs'' ''secret'' @ [(''verbose'', PyBool False)])
              = Inr ()"
    by (simp add: example_cli_def invocation_def dropbox_def and_then_def getitem_def)
  from C10_dropbox_reads_undeclared_verbose
         [of False "''dropbox://docs''" "''secret''" example_cli
             "invocation False ''dropbox://docs'' ''secret''"]
  show ?thesis
    using checks full by simp
qed

end
